theory Spec2Isabelle
  imports Complex_Main
begin

section \<open>Python values used by the DIAL server\<close>

text \<open>
  A Python \<open>str\<close> is modelled as a \<open>string\<close> whose characters are code points below 256
  (the request line and the headers reach the handler decoded as ISO-8859-1), and a
  Python \<open>bytes\<close> value as a \<open>string\<close> whose characters are the bytes.  Where the source
  hands either kind of value to the same function the two are kept apart by \<open>pydata\<close>.
\<close>

datatype pydata = PyStr string | PyBytes string

text \<open>The exceptions that can travel through the handlers.\<close>

datatype exn =
    UnicodeEncodeError
  | UnicodeDecodeError
  | AttributeError
  | ValueError
  | IndexError
  | ReError
  | IOError
  | DBSQLiteConnectionError
  | AppException string

text \<open>\<open>str.startswith\<close> and \<open>str.endswith\<close>.\<close>

definition startswith :: "string \<Rightarrow> string \<Rightarrow> bool" where
  "startswith s p = (take (length p) s = p)"

definition endswith :: "string \<Rightarrow> string \<Rightarrow> bool" where
  "endswith s p = (length p \<le> length s \<and> drop (length s - length p) s = p)"

text \<open>\<open>str.split(sep)\<close> for a separator of one character.\<close>

fun split_on :: "char \<Rightarrow> string \<Rightarrow> string list" where
  "split_on c [] = [[]]"
| "split_on c (x # xs) =
     (if x = c then [] # split_on c xs
      else (case split_on c xs of
              [] \<Rightarrow> [[x]]
            | y # ys \<Rightarrow> (x # y) # ys))"

text \<open>\<open>xs[-2]\<close>: the last element but one, \<open>IndexError\<close> on a list shorter than two.\<close>

definition index_m2 :: "'a list \<Rightarrow> exn + 'a" where
  "index_m2 xs = (if length xs < 2 then Inl IndexError else Inr (xs ! (length xs - 2)))"

text \<open>\<open>str.replace(old, new)\<close>: every non-overlapping occurrence, from the left.\<close>

fun str_replace :: "string \<Rightarrow> string \<Rightarrow> string \<Rightarrow> string" where
  "str_replace old new [] = (if old = [] then new else [])"
| "str_replace old new (x # xs) =
     (if old = [] then new @ x # str_replace old new xs
      else if take (length old) (x # xs) = old
        then new @ str_replace old new (drop (length old - 1) xs)
        else x # str_replace old new xs)"

text \<open>Truthiness of an optional string: \<open>None\<close> and \<open>''\<close> are false.\<close>

fun truthy :: "string option \<Rightarrow> bool" where
  "truthy None = False"
| "truthy (Some s) = (s \<noteq> [])"

text \<open>\<open>dict.get(key, default)\<close> on a dictionary kept in insertion order.\<close>

definition dict_get :: "('k \<times> 'v) list \<Rightarrow> 'k \<Rightarrow> 'v \<Rightarrow> 'v" where
  "dict_get d k dflt = (case map_of d k of None \<Rightarrow> dflt | Some v \<Rightarrow> v)"

text \<open>
  \<open>str.encode('utf-8')\<close> on code points below 256: one byte below 128, two bytes from 128 on.
\<close>

definition utf8_char :: "char \<Rightarrow> string" where
  "utf8_char c =
     (let n = (of_char c :: nat)
      in if n < 128 then [c] else [char_of (192 + n div 64), char_of (128 + n mod 64)])"

definition utf8_encode :: "string \<Rightarrow> string" where
  "utf8_encode s = concat (map utf8_char s)"

text \<open>\<open>bytes.decode('ascii')\<close>: fails on the first byte from 128 on.\<close>

definition bytes_decode_ascii :: "string \<Rightarrow> exn + string" where
  "bytes_decode_ascii bs =
     (if \<forall>b \<in> set bs. (of_char b :: nat) < 128 then Inr bs else Inl UnicodeDecodeError)"

text \<open>
  \<open>bytes.decode('utf-8')\<close>.  The server calls it only on a body that \<open>is_ascii\<close> has
  let through, where every byte is below 128 and stands for itself; a body with another
  byte does not get this far.
\<close>

definition bytes_decode_utf8 :: "string \<Rightarrow> exn + string" where
  "bytes_decode_utf8 bs =
     (if \<forall>b \<in> set bs. (of_char b :: nat) < 128 then Inr bs else Inl UnicodeDecodeError)"

text \<open>
  A Python \<open>float\<close>: a finite double is kept as the rational number it denotes.
  \<open>float_lt\<close> is \<open><\<close> on floats; every comparison with a NaN is false.
\<close>

datatype pyfloat = Finite rat | PosInf | NegInf | NaN

fun float_lt :: "pyfloat \<Rightarrow> pyfloat \<Rightarrow> bool" where
  "float_lt (Finite a) (Finite b) = (a < b)"
| "float_lt (Finite a) PosInf = True"
| "float_lt NegInf (Finite b) = True"
| "float_lt NegInf PosInf = True"
| "float_lt _ _ = False"

section \<open>helpers/utils.py\<close>

text \<open>\<open>get_string_size\<close>: \<open>len(string_value.encode('utf-8'))\<close>.\<close>

definition get_string_size :: "string \<Rightarrow> nat" where
  "get_string_size string_value = length (utf8_encode string_value)"

text \<open>
  \<open>is_ascii\<close>: the body is \<open>byte_string.decode('ascii')\<close> under
  \<open>except UnicodeEncodeError: return False\<close>.  A \<open>bytes\<close> value holding a byte from 128 on
  raises \<open>UnicodeDecodeError\<close>, and a \<open>str\<close> has no \<open>decode\<close> at all (\<open>AttributeError\<close>);
  neither is a \<open>UnicodeEncodeError\<close>, so neither is caught and the function never
  returns \<open>False\<close>.
\<close>

fun decode_ascii :: "pydata \<Rightarrow> exn + string" where
  "decode_ascii (PyBytes bs) = bytes_decode_ascii bs"
| "decode_ascii (PyStr s) = Inl AttributeError"

definition is_ascii :: "pydata \<Rightarrow> exn + bool" where
  "is_ascii byte_string =
     (case decode_ascii byte_string of
        Inl e \<Rightarrow> if e = UnicodeEncodeError then Inr False else Inl e
      | Inr _ \<Rightarrow> Inr True)"

section \<open>The environment of the server\<close>

text \<open>
  What the server takes from the Python standard library, from Kodi and from the globals
  module.  \<open>urlparse\<close> yields the \<open>path\<close> and the \<open>query\<close> component,
  \<open>parse_qs\<close> a dictionary of value lists, \<open>py_float\<close> is \<open>float()\<close> and \<open>py_int\<close>
  is \<open>int()\<close> on a string,
  \<open>re_match c o\<close> tells whether \<open>re.match(c, o)\<close> finds a match,
  \<open>unquote_escape\<close> is \<open>xml.sax.saxutils.escape(urllib.parse.unquote(s))\<close>, and
  \<open>json_dumps\<close>, \<open>json_loads\<close> are the JSON codec on flat dictionaries of strings.
  \<open>SQLiteDatabase\<close> opens the database of the given file name and yields its handle.
\<close>

record env =
  urlparse :: "string \<Rightarrow> exn + (string \<times> string)"
  parse_qs :: "string \<Rightarrow> (string \<times> string list) list"
  py_float :: "string \<Rightarrow> exn + pyfloat"
  py_int :: "string \<Rightarrow> exn + int"
  re_match :: "string \<Rightarrow> string \<Rightarrow> exn + bool"
  unquote_escape :: "string \<Rightarrow> exn + string"
  json_dumps :: "(string \<times> string) list \<Rightarrow> string"
  json_loads :: "string \<Rightarrow> exn + (string \<times> string) list"
  SQLiteDatabase :: "string \<Rightarrow> exn + string"
  getIPAddress :: string
  DIAL_SERVER_PORT :: string

section \<open>servers/dial\_server.py: origins\<close>

text \<open>\<open>host_matches\<close>: the source returns \<open>True\<close> under a TODO.\<close>

definition host_matches :: "string \<Rightarrow> string \<Rightarrow> bool" where
  "host_matches origin candidate = True"

definition origin_matches :: "env \<Rightarrow> string \<Rightarrow> string \<Rightarrow> exn + bool" where
  "origin_matches E origin candidate = re_match E candidate origin"

text \<open>The loop of \<open>is_uri_in_list\<close> over the candidates.\<close>

fun uri_in_candidates :: "env \<Rightarrow> bool \<Rightarrow> string \<Rightarrow> string list \<Rightarrow> exn + bool" where
  "uri_in_candidates E is_https origin [] = Inr False"
| "uri_in_candidates E is_https origin (candidate # rest) =
     (if is_https then
        (if host_matches origin candidate then Inr True
         else uri_in_candidates E is_https origin rest)
      else
        (case origin_matches E origin candidate of
           Inl e \<Rightarrow> Inl e
         | Inr m \<Rightarrow> if m then Inr True else uri_in_candidates E is_https origin rest))"

definition is_uri_in_list :: "env \<Rightarrow> string \<Rightarrow> string list \<Rightarrow> exn + bool" where
  "is_uri_in_list E origin origin_list =
     (if origin = [] \<or> origin_list = [] then Inr False
      else uri_in_candidates E (startswith origin ''https://'') origin origin_list)"

section \<open>servers/dial\_helper.py\<close>

datatype DialStatus =
    STOPPED
  | HIDE
  | RUNNING
  | ERROR_NOT_IMPLEMENTED
  | ERROR_FORBIDDEN
  | ERROR_UNAUTH
  | ERROR

text \<open>
  The response templates.  A response is kept as the template together with the values
  given to \<open>format\<close>; \<open>call_error\<close> is \<open>send_response(code, message)\<close>.  The origin
  is the header as received (\<open>None\<close> is formatted as the text \<open>None\<close>).
\<close>

datatype response =
    call_error nat string
  | OPTIONS_RESPONSE (origin_of: "string option") (methods_of: string)
  | STOP_RESPONSE (origin_of: "string option")
  | CREATED_RESPONSE (address_of: string) (dial_port_of: string) (app_name_of: string)
      (origin_of: "string option")
  | STATUS_RESPONSE (origin_of: "string option") (dial_version_of: string) (app_name_of: string)
      (can_stop_of: string) (dial_state_of: string) (link_of: string) (dial_data_of: string)
  | RESPONSE_OK (origin_of: "string option")
  | DD_XML (ip_addr_of: string) (dial_port_of: string)

text \<open>The status code on the first line of what is sent.\<close>

fun status_code :: "response \<Rightarrow> nat" where
  "status_code (call_error code message) = code"
| "status_code (OPTIONS_RESPONSE origin methods) = 204"
| "status_code (STOP_RESPONSE origin) = 200"
| "status_code (CREATED_RESPONSE address dial_port app_name origin) = 201"
| "status_code (STATUS_RESPONSE origin dial_version app_name can_stop dial_state link dd) = 200"
| "status_code (RESPONSE_OK origin) = 200"
| "status_code (DD_XML ip_addr dial_port) = 200"

section \<open>Applications and the server state\<close>

text \<open>
  \<open>app_class\<close> is a \<open>DialApp\<close> class as an add-on provides it: the configuration
  variables and the four DIAL callbacks.  A callback is given by what it yields when the
  server calls it: a status, or the exception it raises; \<open>init\<close> is the exception that
  the constructor raises, if any.
\<close>

record app_class =
  KODI_ADDON_ID :: "string option"
  DIAL_APP_NAME :: "string option"
  DIAL_ORIGINS :: "string list"
  USE_ADDITIONAL_DATA :: bool
  ENABLE_DATABASE :: bool
  dial_cb_start :: "string \<Rightarrow> (string \<times> string list) list \<Rightarrow> string option \<Rightarrow> exn + DialStatus"
  dial_cb_stop :: "exn + unit"
  dial_cb_status :: "exn + DialStatus"
  dial_cb_hide :: "exn + DialStatus"
  init :: "exn option"

text \<open>The instance that \<open>register_app\<close> creates, with the server's variables.\<close>

record DialApp = app_class +
  db :: "string option"
  state :: DialStatus
  last_payload :: "string option"
  dial_data :: "(string \<times> string) list"

text \<open>
  The module's globals: \<open>MUTEX\<close> (true while the lock is held), the list \<open>APPS\<close>, and
  the files of the add-on's data folder.
\<close>

record server =
  MUTEX :: bool
  APPS :: "DialApp list"
  files :: "string \<rightharpoonup> string"

text \<open>
  The request as it reaches \<open>route\<close>: \<open>command\<close>, \<open>path\<close>,
  \<open>client_address[0]\<close>, the \<open>Origin\<close> and \<open>content-length\<close> headers as received,
  and \<open>rfile\<close>, the bytes that the client sends after the headers.
\<close>

record request =
  command :: string
  path :: string
  client_address :: string
  origin_header :: "string option"
  content_length :: "string option"
  rfile :: string

text \<open>
  The handler object once \<open>route\<close> has set \<open>body_data_size\<close> and \<open>body_data\<close>.
\<close>

record handler = request +
  body_data_size :: int
  body_data :: string

text \<open>
  What a handler leaves behind: a response written to the client, an exception on its
  way to the caller, or nothing.
\<close>

datatype reply = Sent response | Raised exn | NoReply

definition DIAL_VERSION :: string where "DIAL_VERSION = ''2.2''"
definition DIAL_MAX_PAYLOAD :: int where "DIAL_MAX_PAYLOAD = 4096"
definition DIAL_MAX_ADDITIONALURL :: int where "DIAL_MAX_ADDITIONALURL = 1024"
definition DIAL_DATA_SIZE :: int where "DIAL_DATA_SIZE = 8 * 1024"
definition DIAL_DATA_MAX_PAYLOAD :: int where "DIAL_DATA_MAX_PAYLOAD = 4096"

definition RUN_URI :: string where "RUN_URI = ''/run''"
definition APPS_URI :: string where "APPS_URI = ''/apps/''"
definition HIDE_URI :: string where "HIDE_URI = ''/hide''"
definition DIAL_DATA_URI :: string where "DIAL_DATA_URI = ''/dial_data''"

text \<open>\<open>find_app\<close>: the first application of \<open>APPS\<close> with the name.\<close>

definition find_app :: "string \<Rightarrow> DialApp list \<Rightarrow> DialApp option" where
  "find_app app_name apps = find (\<lambda>a. DIAL_APP_NAME a = Some app_name) apps"

text \<open>
  An assignment to a field of the object that \<open>find_app\<close> returned changes the first
  application with the name, in place.
\<close>

fun update_app :: "string \<Rightarrow> (DialApp \<Rightarrow> DialApp) \<Rightarrow> DialApp list \<Rightarrow> DialApp list" where
  "update_app app_name f [] = []"
| "update_app app_name f (a # as) =
     (if DIAL_APP_NAME a = Some app_name then f a # as else a # update_app app_name f as)"

definition set_app :: "string \<Rightarrow> (DialApp \<Rightarrow> DialApp) \<Rightarrow> server \<Rightarrow> server" where
  "set_app app_name f S = S\<lparr>APPS := update_app app_name f (APPS S)\<rparr>"

text \<open>
  \<open>MUTEX.acquire(False)\<close> is written out in the handlers: it fails when the lock is
  held and takes it otherwise.  \<open>MUTEX.release()\<close> is only ever reached with the lock held.
\<close>

definition acquire :: "server \<Rightarrow> server" where
  "acquire S = S\<lparr>MUTEX := True\<rparr>"

definition release :: "server \<Rightarrow> server" where
  "release S = S\<lparr>MUTEX := False\<rparr>"

definition error_500 :: response where
  "error_500 = call_error 500 ''500 Internal Server Error''"

definition not_found :: response where
  "not_found = call_error 404 ''Not found''"

section \<open>The DIAL data store\<close>

text \<open>
  Modelled from the spec: \<open>helpers/file_ops.py\<close> (\<open>save_file_def\<close>, \<open>file_exists\<close>,
  \<open>load_file_def\<close>) is not among the sources.  The spec describes it as a file-backed
  store for the dial-data blobs, loaded and saved by name: saving binds the path to the
  content, a path exists once it is bound, and loading yields the content bound last.
\<close>

definition save_file_def :: "string \<Rightarrow> string \<Rightarrow> server \<Rightarrow> server" where
  "save_file_def file_path content S = S\<lparr>files := (files S)(file_path \<mapsto> content)\<rparr>"

definition file_exists :: "server \<Rightarrow> string \<Rightarrow> bool" where
  "file_exists S file_path = (files S file_path \<noteq> None)"

definition load_file_def :: "server \<Rightarrow> string \<Rightarrow> exn + string" where
  "load_file_def S file_path =
     (case files S file_path of None \<Rightarrow> Inl IOError | Some content \<Rightarrow> Inr content)"

definition store_dial_data :: "env \<Rightarrow> string \<Rightarrow> (string \<times> string) list \<Rightarrow> server \<Rightarrow> server" where
  "store_dial_data E app_name data S =
     (let file_path = ''dial_data/'' @ app_name @ ''.json''
      in save_file_def file_path (utf8_encode (json_dumps E data)) S)"

definition retrieve_dial_data :: "env \<Rightarrow> server \<Rightarrow> string \<Rightarrow> exn + (string \<times> string) list" where
  "retrieve_dial_data E S app_name =
     (let file_path = ''dial_data/'' @ app_name @ ''.json''
      in if \<not> file_exists S file_path then Inr []
         else (case load_file_def S file_path of
                 Inl e \<Rightarrow> Inl e
               | Inr data \<Rightarrow> json_loads E data))"

section \<open>servers/dial\_server.py: the handlers\<close>

text \<open>The loop of \<open>is_allowed_origin\<close> over \<open>APPS\<close>.\<close>

fun allowed_in_apps :: "env \<Rightarrow> string \<Rightarrow> string \<Rightarrow> DialApp list \<Rightarrow> exn + bool" where
  "allowed_in_apps E origin app_name [] = Inr False"
| "allowed_in_apps E origin app_name (app # rest) =
     (if Some app_name = DIAL_APP_NAME app \<and> DIAL_ORIGINS app \<noteq> [] then
        (case is_uri_in_list E origin (DIAL_ORIGINS app) of
           Inl e \<Rightarrow> Inl e
         | Inr r \<Rightarrow> if r then Inr True else allowed_in_apps E origin app_name rest)
      else allowed_in_apps E origin app_name rest)"

definition is_allowed_origin :: "env \<Rightarrow> server \<Rightarrow> string option \<Rightarrow> string \<Rightarrow> (exn + bool) \<times> server" where
  "is_allowed_origin E S origin app_name =
     (case origin of
        None \<Rightarrow> (Inr True, S)
      | Some orig \<Rightarrow>
          if orig = [] then (Inr True, S)
          else if MUTEX S then (Inr False, S)
          else (case allowed_in_apps E orig app_name (APPS (acquire S)) of
                  Inl e \<Rightarrow> (Inl e, acquire S)
                | Inr result \<Rightarrow> (Inr result, release (acquire S))))"

text \<open>
  The test \<open>if origin_header and not is_allowed_origin(origin_header, app_name)\<close>
  that opens every branch of \<open>handle_request\<close>: \<open>Some\<close> reply ends the request.
\<close>

definition check_origin :: "env \<Rightarrow> server \<Rightarrow> string option \<Rightarrow> string \<Rightarrow> reply option \<times> server" where
  "check_origin E S origin app_name =
     (if truthy origin then
        (case is_allowed_origin E S origin app_name of
           (Inl e, S') \<Rightarrow> (Some (Raised e), S')
         | (Inr allowed, S') \<Rightarrow>
             if \<not> allowed then (Some (Sent (call_error 403 ''Forbidden'')), S')
             else (None, S'))
      else (None, S))"

text \<open>The additional-data fragment that \<open>handle_app_status\<close> accumulates.\<close>

fun render_dial_data :: "env \<Rightarrow> string \<Rightarrow> (string \<times> string) list \<Rightarrow> exn + string" where
  "render_dial_data E acc [] = Inr acc"
| "render_dial_data E acc ((key, val) # rest) =
     (case unquote_escape E key of
        Inl e \<Rightarrow> Inl e
      | Inr k \<Rightarrow>
          (case unquote_escape E val of
             Inl e \<Rightarrow> Inl e
           | Inr v \<Rightarrow>
               render_dial_data E
                 (acc @ [CHR 0x0D, CHR 0x0A] @ ''    <'' @ k @ ''>'' @ v @ ''</'' @ k @ ''>'') rest))"

text \<open>The \<open>link\<close> value of a status response for an application that is not stopped.\<close>

definition run_link :: string where
  "run_link = [CHR 0x0D, CHR 0x0A] @ ''  <link rel='' @ [CHR 0x22] @ ''run'' @ [CHR 0x22] @
     '' href='' @ [CHR 0x22] @ ''run'' @ [CHR 0x22] @ ''/>''"

text \<open>The double that the literal \<open>2.09\<close> denotes.\<close>

definition client_version_bound :: pyfloat where
  "client_version_bound = Finite (588282701325271 / 281474976710656)"

definition handle_app_status ::
  "env \<Rightarrow> server \<Rightarrow> (string \<times> string list) list \<Rightarrow> string \<Rightarrow> string option \<Rightarrow> reply \<times> server" where
  "handle_app_status E S query_params app_name origin =
     (case dict_get query_params ''clientDialVer'' [''0.0''] of
        [] \<Rightarrow> (Raised IndexError, S)
      | ver # _ \<Rightarrow>
     (case py_float E ver of
        Inl e \<Rightarrow> (Raised e, S)
      | Inr client_version \<Rightarrow>
     if MUTEX S then (Sent error_500, S)
     else
     (case find_app app_name (APPS (acquire S)) of
        None \<Rightarrow> (Sent not_found, release (acquire S))
      | Some app \<Rightarrow>
     (case render_dial_data E [] (dial_data app) of
        Inl e \<Rightarrow> (Sent error_500, release (acquire S))
      | Inr dd \<Rightarrow>
     if int (get_string_size dd) > DIAL_DATA_SIZE then (Sent error_500, release (acquire S))
     else
     (case dial_cb_status app of
        Inl e \<Rightarrow> (Raised e, acquire S)
      | Inr st \<Rightarrow>
          (let S1 = set_app app_name (\<lambda>a. a\<lparr>state := st\<rparr>) (acquire S);
               local_state = (if float_lt client_version client_version_bound \<and> st = HIDE
                              then STOPPED else st);
               dial_state = (if local_state = HIDE then ''hidden''
                             else if local_state = RUNNING then ''running''
                             else ''stopped'')
           in (Sent (STATUS_RESPONSE origin DIAL_VERSION app_name ''true'' dial_state
                       (if local_state = STOPPED then []
                        else run_link)
                       (dd @ [CHR 0x0D, CHR 0x0A] @ ''  '')),
               release S1)))))))"

definition handle_app_start ::
  "env \<Rightarrow> server \<Rightarrow> handler \<Rightarrow> (string \<times> string list) list \<Rightarrow> string \<Rightarrow> string option \<Rightarrow> reply \<times> server" where
  "handle_app_start E S req query_params app_name origin =
     (if MUTEX S then (Sent error_500, S)
      else
      (case find_app app_name (APPS (acquire S)) of
         None \<Rightarrow> (Sent not_found, release (acquire S))
       | Some app \<Rightarrow>
      if body_data_size req > DIAL_MAX_PAYLOAD
      then (Sent (call_error 413 ''413 Request Entity Too Large''), release (acquire S))
      else
      (case is_ascii (PyBytes (body_data req)) of
         Inl e \<Rightarrow> (Raised e, acquire S)
       | Inr ascii \<Rightarrow>
      if \<not> ascii then (Sent (call_error 400 ''400 Bad Request''), release (acquire S))
      else
      (let additional_data_param =
             (if USE_ADDITIONAL_DATA app
              then Some (''http://127.0.0.1:'' @ DIAL_SERVER_PORT E @ ''/apps/'' @ app_name @ ''/dial_data'')
              else None)
       in
      if (case additional_data_param of
            None \<Rightarrow> False
          | Some url \<Rightarrow> int (get_string_size url) > DIAL_MAX_ADDITIONALURL)
      then (Sent error_500, release (acquire S))
      else
      (case bytes_decode_utf8 (body_data req) of
         Inl e \<Rightarrow> (Raised e, acquire S)
       | Inr payload \<Rightarrow>
      (case dial_cb_start app payload query_params additional_data_param of
         Inl e \<Rightarrow> (Raised e, acquire S)
       | Inr st \<Rightarrow>
          (let S1 = set_app app_name (\<lambda>a. a\<lparr>state := st\<rparr>) (acquire S)
           in if st = RUNNING then
                (Sent (CREATED_RESPONSE (getIPAddress E) (DIAL_SERVER_PORT E) app_name origin),
                 release (set_app app_name (\<lambda>a. a\<lparr>last_payload := Some payload\<rparr>) S1))
              else if st = ERROR_FORBIDDEN then
                (Sent (call_error 400 ''403 Forbidden''), release S1)
              else if st = ERROR_UNAUTH then
                (Sent (call_error 401 ''401 Unauthorized''), release S1)
              else if st = ERROR_NOT_IMPLEMENTED then
                (Sent (call_error 501 ''501 Not Implemented''), release S1)
              else
                (Sent (call_error 503 ''503 Service Unavailable''), release S1))))))))"

definition handle_app_stop :: "env \<Rightarrow> server \<Rightarrow> string \<Rightarrow> string option \<Rightarrow> reply \<times> server" where
  "handle_app_stop E S app_name origin =
     (if MUTEX S then (Sent error_500, S)
      else
      (case find_app app_name (APPS (acquire S)) of
         None \<Rightarrow> (Sent not_found, release (acquire S))
       | Some app \<Rightarrow>
      (case dial_cb_status app of
         Inl e \<Rightarrow> (Raised e, acquire S)
       | Inr st \<Rightarrow>
          (let S1 = set_app app_name (\<lambda>a. a\<lparr>state := st\<rparr>) (acquire S)
           in if st = STOPPED then (Sent not_found, release S1)
              else
              (case dial_cb_stop app of
                 Inl e \<Rightarrow> (Raised e, S1)
               | Inr _ \<Rightarrow>
                   (Sent (STOP_RESPONSE origin),
                    release (set_app app_name (\<lambda>a. a\<lparr>state := STOPPED\<rparr>) S1)))))))"

definition handle_app_hide :: "env \<Rightarrow> server \<Rightarrow> string \<Rightarrow> string option \<Rightarrow> reply \<times> server" where
  "handle_app_hide E S app_name origin =
     (if MUTEX S then (Sent error_500, S)
      else
      (case find_app app_name (APPS (acquire S)) of
         None \<Rightarrow> (Sent not_found, release (acquire S))
       | Some app \<Rightarrow>
      (case dial_cb_status app of
         Inl e \<Rightarrow> (Raised e, acquire S)
       | Inr st \<Rightarrow>
          (let S1 = set_app app_name (\<lambda>a. a\<lparr>state := st\<rparr>) (acquire S)
           in if st \<noteq> RUNNING \<and> st \<noteq> HIDE then (Sent not_found, release S1)
              else
              (case dial_cb_hide app of
                 Inl e \<Rightarrow> (Raised e, S1)
               | Inr status \<Rightarrow>
                   if status \<noteq> HIDE
                   then (Sent (call_error 501 ''501 Not Implemented''), release S1)
                   else (Sent (RESPONSE_OK origin),
                         release (set_app app_name (\<lambda>a. a\<lparr>state := HIDE\<rparr>) S1)))))))"

text \<open>
  The loop \<open>dial_data[key] = dial_data[key][0]\<close> of \<open>handle_dial_data\<close>: every
  list of values is replaced by its first element.
\<close>

fun first_values :: "(string \<times> string list) list \<Rightarrow> exn + (string \<times> string) list" where
  "first_values [] = Inr []"
| "first_values ((key, vals) # rest) =
     (case vals of
        [] \<Rightarrow> Inl IndexError
      | v # _ \<Rightarrow>
          (case first_values rest of
             Inl e \<Rightarrow> Inl e
           | Inr d \<Rightarrow> Inr ((key, v) # d)))"

text \<open>
  The second half of \<open>handle_dial_data\<close>, from \<open>if not utils.is_ascii(data)\<close> on;
  \<open>S\<close> holds the lock.
\<close>

definition deliver_dial_data ::
  "env \<Rightarrow> server \<Rightarrow> string \<Rightarrow> string option \<Rightarrow> pydata \<Rightarrow> reply \<times> server" where
  "deliver_dial_data E S app_name origin data =
     (case is_ascii data of
        Inl e \<Rightarrow> (Raised e, S)
      | Inr ascii \<Rightarrow>
     if \<not> ascii then (Sent (call_error 400 ''400 Bad Request''), release S)
     else
     (case decode_ascii data of
        Inl e \<Rightarrow> (Raised e, S)
      | Inr text \<Rightarrow>
     (case urlparse E text of
        Inl e \<Rightarrow> (Raised e, S)
      | Inr (parsed_path, parsed_query) \<Rightarrow>
     (case first_values (parse_qs E parsed_query) of
        Inl e \<Rightarrow> (Raised e, S)
      | Inr dd \<Rightarrow>
          (Sent (RESPONSE_OK origin),
           release (set_app app_name (\<lambda>a. a\<lparr>dial_data := dd\<rparr>)
                      (store_dial_data E app_name dd S)))))))"

definition handle_dial_data ::
  "env \<Rightarrow> server \<Rightarrow> handler \<Rightarrow> string \<Rightarrow> string option \<Rightarrow> bool \<Rightarrow> reply \<times> server" where
  "handle_dial_data E S req app_name origin use_payload =
     (if MUTEX S then (Sent error_500, S)
      else
      (case find_app app_name (APPS (acquire S)) of
         None \<Rightarrow> (Sent not_found, release (acquire S))
       | Some app \<Rightarrow>
      (case dial_cb_status app of
         Inl e \<Rightarrow> (Raised e, acquire S)
       | Inr st \<Rightarrow>
          (let S1 = set_app app_name (\<lambda>a. a\<lparr>state := st\<rparr>) (acquire S)
           in if \<not> use_payload then
                (case urlparse E (path req) of
                   Inl e \<Rightarrow> (Raised e, S1)
                 | Inr (url_path, url_query) \<Rightarrow>
                     if int (get_string_size url_query) > DIAL_DATA_MAX_PAYLOAD
                     then (Sent (call_error 413 ''413 Request Entity Too Large''), release S1)
                     else deliver_dial_data E S1 app_name origin (PyStr url_query))
              else
                if body_data_size req > DIAL_DATA_MAX_PAYLOAD
                then (Sent (call_error 413 ''413 Request Entity Too Large''), release S1)
                else deliver_dial_data E S1 app_name origin (PyBytes (body_data req))))))"

text \<open>
  \<open>handle_request\<close>.  \<open>req_path\<close> is the path component of the request's URL and
  \<open>query_params\<close> the parsed query, both set by \<open>route\<close>.
\<close>

definition handle_request ::
  "env \<Rightarrow> server \<Rightarrow> handler \<Rightarrow> string \<Rightarrow> (string \<times> string list) list \<Rightarrow> reply \<times> server" where
  "handle_request E S req req_path query_params =
     (let req_method = command req; origin = origin_header req in
      if endswith req_path RUN_URI then
        (case index_m2 (split_on CHR ''/'' req_path) of
           Inl e \<Rightarrow> (Raised e, S)
         | Inr segment \<Rightarrow>
             (let app_name = take 255 segment in
              case check_origin E S origin app_name of
                (Some r, S') \<Rightarrow> (r, S')
              | (None, S') \<Rightarrow>
                  if req_method = ''OPTIONS''
                  then (Sent (OPTIONS_RESPONSE origin ''DELETE, OPTIONS''), S')
                  else if app_name \<noteq> [] \<and> req_method = ''DELETE''
                  then handle_app_stop E S' app_name origin
                  else (Sent (call_error 501 ''Not Implemented''), S')))
      else if startswith req_path APPS_URI then
        (let app_name = str_replace APPS_URI [] req_path in
         case check_origin E S origin app_name of
           (Some r, S') \<Rightarrow> (r, S')
         | (None, S') \<Rightarrow>
             if req_method = ''OPTIONS''
             then (Sent (OPTIONS_RESPONSE origin ''GET, POST, OPTIONS''), S')
             else if req_method = ''POST''
             then handle_app_start E S' req query_params app_name origin
             else if req_method = ''GET''
             then handle_app_status E S' query_params app_name origin
             else (Sent (call_error 501 ''Not Implemented''), S'))
      else if endswith req_path HIDE_URI then
        (case index_m2 (split_on CHR ''/'' req_path) of
           Inl e \<Rightarrow> (Raised e, S)
         | Inr segment \<Rightarrow>
             (let app_name = take 255 segment in
              case check_origin E S origin app_name of
                (Some r, S') \<Rightarrow> (r, S')
              | (None, S') \<Rightarrow>
                  if req_method = ''OPTIONS''
                  then (Sent (OPTIONS_RESPONSE origin ''POST, OPTIONS''), S')
                  else if app_name \<noteq> [] \<and> req_method = ''POST''
                  then handle_app_hide E S' app_name origin
                  else (Sent (call_error 501 ''Not Implemented''), S')))
      else if endswith req_path DIAL_DATA_URI then
        (if client_address req \<in> set [''127.0.0.1'', getIPAddress E] then
           (case index_m2 (split_on CHR ''/'' req_path) of
              Inl e \<Rightarrow> (Raised e, S)
            | Inr app_name \<Rightarrow>
                if app_name = [] then (Sent error_500, S)
                else
                (case check_origin E S origin app_name of
                   (Some r, S') \<Rightarrow> (r, S')
                 | (None, S') \<Rightarrow>
                     if req_method = ''OPTIONS''
                     then (Sent (OPTIONS_RESPONSE origin ''POST, OPTIONS''), S')
                     else handle_dial_data E S' req app_name origin (req_method = ''POST'')))
         else (Sent not_found, S))
      else (NoReply, S))"

text \<open>
  \<open>int(self.headers.get('content-length', 0))\<close>: the declared size of the body, 0
  without the header.
\<close>

definition declared_size :: "env \<Rightarrow> request \<Rightarrow> exn + int" where
  "declared_size E req =
     (case content_length req of
        None \<Rightarrow> Inr 0
      | Some v \<Rightarrow> py_int E v)"

text \<open>
  The body that \<open>route\<close> reads: nothing for the size 0, otherwise
  \<open>self.rfile.read(size)\<close>, which yields at most \<open>size\<close> bytes and, for a negative
  size, all there is.
\<close>

definition read_body :: "int \<Rightarrow> string \<Rightarrow> string" where
  "read_body n bytes =
     (if n = 0 then [] else if n < 0 then bytes else take (nat n) bytes)"

text \<open>
  \<open>route\<close>.  An exception out of \<open>handle_request\<close> is answered with \<open>500 ERROR\<close>;
  \<open>urlparse(self.path)\<close> and the \<open>int()\<close> of the declared size stand before the
  \<open>try\<close>, so their exceptions leave \<open>route\<close> and nothing is sent.
\<close>

definition route :: "env \<Rightarrow> server \<Rightarrow> request \<Rightarrow> reply \<times> server" where
  "route E S req =
     (case urlparse E (path req) of
        Inl e \<Rightarrow> (Raised e, S)
      | Inr (url_path, url_query) \<Rightarrow>
          if url_path = ''/ssdp/device-desc.xml''
          then (Sent (DD_XML (getIPAddress E) (DIAL_SERVER_PORT E)), S)
          else
          (case declared_size E req of
             Inl e \<Rightarrow> (Raised e, S)
           | Inr n \<Rightarrow>
               (case handle_request E S
                       (request.extend req (handler.fields n (read_body n (rfile req))))
                       url_path (parse_qs E url_query) of
                  (Raised e, S') \<Rightarrow> (Sent (call_error 500 ''ERROR''), S')
                | (r, S') \<Rightarrow> (r, S'))))"


section \<open>servers/dial\_server.py: registration\<close>

text \<open>\<open>str.lower\<close> on code points below 256.\<close>

definition char_lower :: "char \<Rightarrow> char" where
  "char_lower c =
     (let n = (of_char c :: nat)
      in if (65 \<le> n \<and> n \<le> 90) \<or> (192 \<le> n \<and> n \<le> 222 \<and> n \<noteq> 215) then char_of (n + 32) else c)"

definition str_lower :: "string \<Rightarrow> string" where
  "str_lower s = map char_lower s"

text \<open>
  \<open>register_app\<close>.  It returns without a value; the result is the new state of the
  module, or the exception that left it.
\<close>

definition register_app :: "env \<Rightarrow> server \<Rightarrow> app_class \<Rightarrow> exn + server" where
  "register_app E S cls =
     (if \<not> truthy (KODI_ADDON_ID cls) \<or> \<not> truthy (DIAL_APP_NAME cls) then Inr S
      else
      (case DIAL_APP_NAME cls of
         None \<Rightarrow> Inr S
       | Some name \<Rightarrow>
      (case find_app name (APPS S) of
         Some existing_app \<Rightarrow> Inr S
       | None \<Rightarrow>
      (case (if ENABLE_DATABASE cls
             then map_sum id Some (SQLiteDatabase E (''app_'' @ str_lower name @ ''.sqlite3''))
             else Inr None) of
         Inl e \<Rightarrow> Inl e
       | Inr database \<Rightarrow>
      (case init cls of
         Some e \<Rightarrow> Inl e
       | None \<Rightarrow>
      (case retrieve_dial_data E S name of
         Inl e \<Rightarrow> Inl e
       | Inr dd \<Rightarrow>
          Inr (S\<lparr>APPS := APPS S @
                 [app_class.extend cls
                    (DialApp.fields database STOPPED None dd)]\<rparr>)))))))"

section \<open>A sample installation\<close>

text \<open>
  An environment for concrete runs.  \<open>simple_urlparse\<close> is \<open>urlparse\<close> on a URL
  without scheme, host, parameters or fragment: the query is what follows the first
  question mark.  \<open>simple_parse_qs\<close> is \<open>parse_qs\<close> on a query without escapes: pairs
  without \<open>=\<close> or with a blank value are dropped, values of one key are collected in
  order.  \<open>sample_float\<close> is \<open>float()\<close> on the strings used below.
\<close>

definition simple_urlparse :: "string \<Rightarrow> exn + (string \<times> string)" where
  "simple_urlparse url =
     Inr (takeWhile (\<lambda>c. c \<noteq> CHR ''?'') url, drop 1 (dropWhile (\<lambda>c. c \<noteq> CHR ''?'') url))"

fun add_value :: "string \<Rightarrow> string \<Rightarrow> (string \<times> string list) list \<Rightarrow> (string \<times> string list) list" where
  "add_value k v [] = [(k, [v])]"
| "add_value k v ((k', vs) # rest) =
     (if k = k' then (k', vs @ [v]) # rest else (k', vs) # add_value k v rest)"

definition simple_parse_qs :: "string \<Rightarrow> (string \<times> string list) list" where
  "simple_parse_qs qs =
     foldl (\<lambda>d nv. if CHR ''='' \<notin> set nv then d
                    else (let k = takeWhile (\<lambda>c. c \<noteq> CHR ''='') nv;
                              v = drop 1 (dropWhile (\<lambda>c. c \<noteq> CHR ''='') nv)
                          in if v = [] then d else add_value k v d))
       [] (split_on CHR ''&'' qs)"

text \<open>
  \<open>sample_int\<close> is \<open>int()\<close> on a decimal numeral with an optional sign; a text with
  another character is no integer.
\<close>

fun digits_value :: "nat \<Rightarrow> string \<Rightarrow> nat option" where
  "digits_value acc [] = Some acc"
| "digits_value acc (c # cs) =
     (let n = (of_char c :: nat)
      in if 48 \<le> n \<and> n \<le> 57 then digits_value (10 * acc + (n - 48)) cs else None)"

definition sample_int :: "string \<Rightarrow> exn + int" where
  "sample_int s =
     (case s of
        [] \<Rightarrow> Inl ValueError
      | c # cs \<Rightarrow>
          if c = CHR ''-'' \<or> c = CHR ''+'' then
            (if cs = [] then Inl ValueError
             else (case digits_value 0 cs of
                     None \<Rightarrow> Inl ValueError
                   | Some n \<Rightarrow> Inr (if c = CHR ''-'' then - int n else int n)))
          else (case digits_value 0 s of
                  None \<Rightarrow> Inl ValueError
                | Some n \<Rightarrow> Inr (int n)))"

definition sample_float :: "string \<Rightarrow> exn + pyfloat" where
  "sample_float s =
     (if s = ''0.0'' then Inr (Finite 0)
      else if s = ''2.0'' then Inr (Finite 2)
      else if s = ''2.09375'' then Inr (Finite (67 / 32))
      else Inl ValueError)"

text \<open>
  \<open>json.dumps\<close> on a flat dictionary of strings, with the library's defaults: the
  separators \<open>, \<close> and \<open>: \<close>, and every character outside the printable ASCII range
  escaped, so that the text is ASCII.
\<close>

definition hex_digit :: "nat \<Rightarrow> char" where
  "hex_digit k = (if k < 10 then char_of (48 + k) else char_of (87 + k))"

definition json_escape_char :: "char \<Rightarrow> string" where
  "json_escape_char c =
     (let n = (of_char c :: nat)
      in if n = 0x22 then [CHR 0x5C, CHR 0x22]
         else if n = 0x5C then [CHR 0x5C, CHR 0x5C]
         else if n = 0x0A then [CHR 0x5C, CHR ''n'']
         else if n = 0x0D then [CHR 0x5C, CHR ''r'']
         else if n = 0x09 then [CHR 0x5C, CHR ''t'']
         else if n = 0x08 then [CHR 0x5C, CHR ''b'']
         else if n = 0x0C then [CHR 0x5C, CHR ''f'']
         else if n < 0x20 \<or> 0x7E < n
           then [CHR 0x5C, CHR ''u'', CHR ''0'', CHR ''0'', hex_digit (n div 16), hex_digit (n mod 16)]
         else [c])"

definition json_quote :: "string \<Rightarrow> string" where
  "json_quote s = [CHR 0x22] @ concat (map json_escape_char s) @ [CHR 0x22]"

fun json_items :: "(string \<times> string) list \<Rightarrow> string" where
  "json_items [] = []"
| "json_items [(k, v)] = json_quote k @ '': '' @ json_quote v"
| "json_items ((k, v) # rest) = json_quote k @ '': '' @ json_quote v @ '', '' @ json_items rest"

definition simple_json_dumps :: "(string \<times> string) list \<Rightarrow> string" where
  "simple_json_dumps d = ''{'' @ json_items d @ ''}''"

text \<open>
  \<open>json.loads\<close> on a text laid out as \<open>json.dumps\<close> writes it.  \<open>json_unquote\<close>
  reads a string after its opening quote and yields the text and what follows it; an
  escape of four hexadecimal digits is read when it names a code point below 256.
\<close>

definition hex_value :: "char \<Rightarrow> nat option" where
  "hex_value c =
     (let n = (of_char c :: nat)
      in if 48 \<le> n \<and> n \<le> 57 then Some (n - 48)
         else if 97 \<le> n \<and> n \<le> 102 then Some (n - 87)
         else if 65 \<le> n \<and> n \<le> 70 then Some (n - 55)
         else None)"

definition hex4 :: "char \<Rightarrow> char \<Rightarrow> char \<Rightarrow> char \<Rightarrow> nat option" where
  "hex4 a b c d =
     (case (hex_value a, hex_value b, hex_value c, hex_value d) of
        (Some w, Some x, Some y, Some z) \<Rightarrow> Some (4096 * w + 256 * x + 16 * y + z)
      | _ \<Rightarrow> None)"

definition json_unescape :: "char \<Rightarrow> char option" where
  "json_unescape d =
     (if d = CHR 0x22 \<or> d = CHR 0x5C \<or> d = CHR ''/'' then Some d
      else if d = CHR ''n'' then Some (CHR 0x0A)
      else if d = CHR ''r'' then Some (CHR 0x0D)
      else if d = CHR ''t'' then Some (CHR 0x09)
      else if d = CHR ''b'' then Some (CHR 0x08)
      else if d = CHR ''f'' then Some (CHR 0x0C)
      else None)"

fun json_unquote :: "string \<Rightarrow> string \<Rightarrow> (string \<times> string) option" where
  "json_unquote acc (c # cs) =
     (if c = CHR 0x22 then Some (acc, cs)
      else if c = CHR 0x5C then
        (case cs of
           d # h1 # h2 # h3 # h4 # r \<Rightarrow>
             if d = CHR ''u'' then
               (case hex4 h1 h2 h3 h4 of
                  None \<Rightarrow> None
                | Some n \<Rightarrow> if n < 256 then json_unquote (acc @ [char_of n]) r else None)
             else (case json_unescape d of
                     None \<Rightarrow> None
                   | Some x \<Rightarrow> json_unquote (acc @ [x]) (h1 # h2 # h3 # h4 # r))
         | d # ds \<Rightarrow>
             (case json_unescape d of
                None \<Rightarrow> None
              | Some x \<Rightarrow> json_unquote (acc @ [x]) ds)
         | [] \<Rightarrow> None)
      else if (of_char c :: nat) < 0x20 then None
      else json_unquote (acc @ [c]) cs)"
| "json_unquote acc [] = None"

fun json_members :: "nat \<Rightarrow> string \<Rightarrow> (string \<times> string) list option" where
  "json_members 0 s = None"
| "json_members (Suc n) s =
     (case s of
        [] \<Rightarrow> None
      | c # cs \<Rightarrow>
          if c \<noteq> CHR 0x22 then None
          else
          (case json_unquote [] cs of
             None \<Rightarrow> None
           | Some (k, r1) \<Rightarrow>
               if take 3 r1 \<noteq> '': '' @ [CHR 0x22] then None
               else
               (case json_unquote [] (drop 3 r1) of
                  None \<Rightarrow> None
                | Some (v, r2) \<Rightarrow>
                    if r2 = ''}'' then Some [(k, v)]
                    else if take 2 r2 = '', ''
                    then map_option ((#) (k, v)) (json_members n (drop 2 r2))
                    else None)))"

definition simple_json_loads :: "string \<Rightarrow> exn + (string \<times> string) list" where
  "simple_json_loads s =
     (if s = ''{}'' then Inr []
      else if take 1 s \<noteq> ''{'' then Inl ValueError
      else (case json_members (length s) (drop 1 s) of
              None \<Rightarrow> Inl ValueError
            | Some d \<Rightarrow> Inr d))"

definition sample_env :: env where
  "sample_env =
     \<lparr>urlparse = simple_urlparse,
      parse_qs = simple_parse_qs,
      py_float = sample_float,
      py_int = sample_int,
      re_match = (\<lambda>candidate origin. Inr (startswith origin candidate)),
      unquote_escape = Inr,
      json_dumps = simple_json_dumps,
      json_loads = simple_json_loads,
      SQLiteDatabase = Inr,
      getIPAddress = ''192.168.1.10'',
      DIAL_SERVER_PORT = ''56789''\<rparr>"

text \<open>
  The application of \<open>apps/dial_app_test\<close>, registered under the name \<open>Test\<close> with one
  allowed origin, on a player where its add-on is enabled.
\<close>

definition sample_class :: app_class where
  "sample_class =
     \<lparr>KODI_ADDON_ID = Some ''plugin.video.test'',
      DIAL_APP_NAME = Some ''Test'',
      DIAL_ORIGINS = [''https://www.youtube.com''],
      USE_ADDITIONAL_DATA = False,
      ENABLE_DATABASE = False,
      dial_cb_start = (\<lambda>payload query_params additional_data_param. Inr RUNNING),
      dial_cb_stop = Inr (),
      dial_cb_status = Inr STOPPED,
      dial_cb_hide = Inr ERROR_NOT_IMPLEMENTED,
      init = None\<rparr>"

definition sample_app :: DialApp where
  "sample_app = app_class.extend sample_class (DialApp.fields None STOPPED None [])"

definition sample_server :: server where
  "sample_server = \<lparr>MUTEX = False, APPS = [sample_app], files = Map.empty\<rparr>"

text \<open>
  A request without body, \<open>content-length\<close> and \<open>Origin\<close> header from another host of
  the network.
\<close>

definition sample_request :: "string \<Rightarrow> string \<Rightarrow> request" where
  "sample_request method url =
     \<lparr>command = method, path = url, client_address = ''192.168.1.20'',
      origin_header = None, content_length = None, rfile = []\<rparr>"

section \<open>Auxiliary facts\<close>

lemmas string_defs = startswith_def endswith_def index_m2_def dict_get_def utf8_char_def
  utf8_encode_def bytes_decode_ascii_def bytes_decode_utf8_def get_string_size_def is_ascii_def

lemmas const_defs = DIAL_VERSION_def DIAL_MAX_PAYLOAD_def DIAL_MAX_ADDITIONALURL_def
  DIAL_DATA_SIZE_def DIAL_DATA_MAX_PAYLOAD_def RUN_URI_def APPS_URI_def HIDE_URI_def
  DIAL_DATA_URI_def error_500_def not_found_def client_version_bound_def

lemmas handler_defs = host_matches_def origin_matches_def is_uri_in_list_def
  is_allowed_origin_def check_origin_def handle_app_status_def handle_app_start_def
  handle_app_stop_def handle_app_hide_def deliver_dial_data_def handle_dial_data_def
  handle_request_def route_def declared_size_def read_body_def find_app_def set_app_def acquire_def release_def
  save_file_def_def file_exists_def load_file_def_def store_dial_data_def retrieve_dial_data_def

lemmas sample_defs = simple_urlparse_def simple_parse_qs_def sample_float_def sample_int_def
  sample_env_def request.extend_def handler.fields_def
  sample_class_def sample_app_def sample_server_def sample_request_def
  app_class.extend_def DialApp.fields_def Let_def

lemmas run_defs = string_defs const_defs handler_defs sample_defs

lemma release_acquire: "\<not> MUTEX S \<Longrightarrow> release (acquire S) = S"
  by (simp add: release_def acquire_def)

lemma apps_acquire: "APPS (acquire S) = APPS S"
  by (simp add: acquire_def)

lemma find_app_update_same:
  "(\<And>a. DIAL_APP_NAME (f a) = DIAL_APP_NAME a) \<Longrightarrow>
   find_app n (update_app n f apps) = map_option f (find_app n apps)"
  by (induction apps) (auto simp: find_app_def)

lemma find_app_append:
  "find_app n (apps @ [a]) =
     (case find_app n apps of
        None \<Rightarrow> if DIAL_APP_NAME a = Some n then Some a else None
      | Some b \<Rightarrow> Some b)"
  by (induction apps) (auto simp: find_app_def)

text \<open>\<open>is_ascii\<close> answers \<open>True\<close> or raises; the answer \<open>False\<close> is out of its reach.\<close>

lemma is_ascii_never_False: "is_ascii data \<noteq> Inr False"
  by (cases data) (auto simp: is_ascii_def bytes_decode_ascii_def)

text \<open>With an \<open>https\<close> origin every non-empty list of candidates matches.\<close>

lemma uri_in_candidates_https:
  "cs \<noteq> [] \<Longrightarrow> uri_in_candidates E True origin cs = Inr True"
  by (cases cs) (simp_all add: host_matches_def)

lemma is_uri_in_list_https:
  "startswith origin ''https://'' \<Longrightarrow> origin_list \<noteq> [] \<Longrightarrow>
   is_uri_in_list E origin origin_list = Inr True"
  by (auto simp: is_uri_in_list_def uri_in_candidates_https startswith_def)

text \<open>A path that ends with a slash and a word has a last segment but one.\<close>

lemma split_on_length: "length (split_on c s) = Suc (count_list s c)"
  by (induction s) (auto split: list.splits)

lemma endswith_segment:
  assumes "endswith p (CHR ''/'' # t)"
  shows "\<exists>seg. index_m2 (split_on CHR ''/'' p) = Inr seg"
proof -
  from assms have "CHR ''/'' \<in> set (drop (length p - length (CHR ''/'' # t)) p)"
    by (simp add: endswith_def)
  then have "CHR ''/'' \<in> set p" by (meson in_set_dropD)
  then have "0 < count_list p CHR ''/''"
    using count_list_0_iff [of p "CHR ''/''"] by auto
  then show ?thesis by (simp add: index_m2_def split_on_length)
qed

subsection \<open>The origin check\<close>



lemma check_origin_passed:
  "\<not> MUTEX S \<Longrightarrow> check_origin E S origin n = (None, S') \<Longrightarrow> S' = S"
  by (auto simp: check_origin_def is_allowed_origin_def release_acquire
      split: if_splits option.splits sum.splits prod.splits)

lemma check_origin_reply:
  "check_origin E S origin n = (Some r, S') \<Longrightarrow>
     r = Sent (call_error 403 ''Forbidden'') \<or> (\<exists>e. r = Raised e)"
  by (auto simp: check_origin_def split: if_splits prod.splits sum.splits)

subsection \<open>The handlers while the lock is held\<close>







subsection \<open>Requests under \<open>/apps/\<close>\<close>

text \<open>A body whose size is declared as it is gets read whole.\<close>

lemma read_body_declared: "read_body (int (length bytes)) bytes = bytes"
  by (simp add: read_body_def)

lemma route_start:
  assumes "urlparse E (path req) = Inr (p, q)"
      and "startswith p APPS_URI" and "\<not> endswith p RUN_URI" and "command req = ''POST''"
      and "\<not> MUTEX S"
      and "fst (check_origin E S (origin_header req) (str_replace APPS_URI [] p)) = None"
      and "declared_size E req = Inr n"
  shows "route E S req =
           (case handle_app_start E S
                   (request.extend req (handler.fields n (read_body n (rfile req))))
                   (parse_qs E q) (str_replace APPS_URI [] p) (origin_header req) of
              (Raised e, S') \<Rightarrow> (Sent (call_error 500 ''ERROR''), S')
            | (r, S') \<Rightarrow> (r, S'))"
proof -
  have dd: "p \<noteq> ''/ssdp/device-desc.xml''"
    using assms(2) by (auto simp: string_defs const_defs)
  obtain S' where c:
    "check_origin E S (origin_header req) (str_replace APPS_URI [] p) = (None, S')"
    using assms(6)
    by (cases "check_origin E S (origin_header req) (str_replace APPS_URI [] p)") auto
  with assms(5) have "S' = S" by (rule check_origin_passed)
  with c dd assms(1-4,7) show ?thesis
    by (simp add: route_def handle_request_def request.extend_def Let_def)
qed

lemma status_reply:
  assumes "handle_app_status E S qp n orig =
             (Sent (STATUS_RESPONSE orig' dv name cs ds link dd), S')"
      and "dict_get qp ''clientDialVer'' [''0.0''] = ver # rest"
      and "py_float E ver = Inr cv" and "float_lt cv client_version_bound"
  shows "name = n \<and> ds \<noteq> ''hidden'' \<and> \<not> MUTEX S \<and>
         (\<exists>app st. find_app n (APPS S) = Some app \<and> dial_cb_status app = Inr st \<and>
            S' = release (set_app n (\<lambda>a. a\<lparr>state := st\<rparr>) (acquire S)) \<and>
            (st = HIDE \<longrightarrow> ds = ''stopped'' \<and> link = []))"
  using assms
  by (auto simp: handle_app_status_def apps_acquire error_500_def not_found_def Let_def
      split: if_splits option.splits sum.splits)

lemma route_status:
  assumes "urlparse E (path req) = Inr (p, q)"
      and "startswith p APPS_URI" and "\<not> endswith p RUN_URI" and "command req = ''GET''"
      and "route E S req = (Sent (STATUS_RESPONSE orig dv name cs ds link dd), S')"
  shows "\<exists>S1. handle_app_status E S1 (parse_qs E q) (str_replace APPS_URI [] p)
                 (origin_header req) =
               (Sent (STATUS_RESPONSE orig dv name cs ds link dd), S') \<and>
              (\<not> MUTEX S \<longrightarrow> S1 = S) \<and> (MUTEX S \<longrightarrow> MUTEX S1)"
proof -
  have dd: "p \<noteq> ''/ssdp/device-desc.xml''"
    using assms(2) by (auto simp: string_defs const_defs)
  obtain ro S1 where c:
    "check_origin E S (origin_header req) (str_replace APPS_URI [] p) = (ro, S1)"
    by (cases "check_origin E S (origin_header req) (str_replace APPS_URI [] p)") auto
  show ?thesis
  proof (cases ro)
    case None
    with c have "\<not> MUTEX S \<longrightarrow> S1 = S" using check_origin_passed by blast
    moreover have "MUTEX S \<longrightarrow> MUTEX S1"
      using c None
      by (auto simp: check_origin_def is_allowed_origin_def
          split: if_splits option.splits prod.splits sum.splits)
    moreover have "handle_app_status E S1 (parse_qs E q) (str_replace APPS_URI [] p)
                     (origin_header req) =
                   (Sent (STATUS_RESPONSE orig dv name cs ds link dd), S')"
      using assms(1,3-5) assms(2) dd c None
      by (auto simp: route_def handle_request_def request.extend_def Let_def
          split: prod.splits reply.splits sum.splits)
    ultimately show ?thesis by auto
  next
    case (Some r)
    with c check_origin_reply
    have "r = Sent (call_error 403 ''Forbidden'') \<or> (\<exists>e. r = Raised e)"
      by blast
    with assms dd c Some show ?thesis
      by (auto simp: route_def handle_request_def request.extend_def Let_def
          split: sum.splits)
  qed
qed

subsection \<open>The JSON codec of the sample\<close>

text \<open>
  \<open>simple_json_loads\<close> reads back every dictionary that \<open>simple_json_dumps\<close> writes,
  whatever the characters of its keys and values.
\<close>

lemma unquote_close: "json_unquote acc (CHR 0x22 # cs) = Some (acc, cs)"
  by simp

lemma unquote_escape:
  "d \<noteq> CHR ''u'' \<Longrightarrow>
   json_unquote acc (CHR 0x5C # d # ds) =
     (case json_unescape d of None \<Rightarrow> None | Some x \<Rightarrow> json_unquote (acc @ [x]) ds)"
  by (auto split: list.splits)

lemma unquote_hex:
  "json_unquote acc (CHR 0x5C # CHR ''u'' # h1 # h2 # h3 # h4 # r) =
     (case hex4 h1 h2 h3 h4 of
        None \<Rightarrow> None
      | Some n \<Rightarrow> if n < 256 then json_unquote (acc @ [char_of n]) r else None)"
  by simp

lemma unquote_plain:
  "c \<noteq> CHR 0x22 \<Longrightarrow> c \<noteq> CHR 0x5C \<Longrightarrow> \<not> (of_char c :: nat) < 0x20 \<Longrightarrow>
   json_unquote acc (c # rest) = json_unquote (acc @ [c]) rest"
  by simp

declare json_unquote.simps [simp del]

lemma hex_value_digit: "k < 16 \<Longrightarrow> hex_value (hex_digit k) = Some k"
  by (auto simp: hex_value_def hex_digit_def Let_def)

lemma hex_value_0: "hex_value CHR ''0'' = Some 0"
  by (simp add: hex_value_def)

lemma of_char_less: "(of_char c :: nat) < 256"
  by (metis of_char_mod_256 mod_less_divisor zero_less_numeral)

lemma unquote_u:
  assumes "(of_char c :: nat) = n"
  shows "json_unquote acc (CHR 0x5C # CHR ''u'' # CHR ''0'' # CHR ''0'' #
           hex_digit (n div 16) # hex_digit (n mod 16) # r)
         = json_unquote (acc @ [c]) r"
proof -
  have n: "n < 256" using assms of_char_less by auto
  then have d: "n div 16 < 16" by simp
  have "hex4 CHR ''0'' CHR ''0'' (hex_digit (n div 16)) (hex_digit (n mod 16)) = Some n"
    using d by (simp add: hex4_def hex_value_0 hex_value_digit)
  moreover have "char_of n = c" using assms by auto
  ultimately show ?thesis using n by (simp add: unquote_hex)
qed

lemma char_eq_code: "c = d \<longleftrightarrow> (of_char c :: nat) = of_char d"
  by (simp add: of_char_eq_iff)

lemma unquote_char:
  "json_unquote acc (json_escape_char c @ rest) = json_unquote (acc @ [c]) rest"
proof -
  define n where "n = (of_char c :: nat)"
  consider "n = 0x22" | "n = 0x5C" | "n = 0x0A" | "n = 0x0D" | "n = 0x09" | "n = 0x08" | "n = 0x0C"
    | "n \<notin> {0x22, 0x5C, 0x0A, 0x0D, 0x09, 0x08, 0x0C}" "n < 0x20 \<or> 0x7E < n"
    | "n \<notin> {0x22, 0x5C, 0x0A, 0x0D, 0x09, 0x08, 0x0C}" "\<not> (n < 0x20 \<or> 0x7E < n)"
    by blast
  then show ?thesis
  proof cases
    case 1
    then have "c = CHR 0x22" by (simp add: char_eq_code n_def)
    then show ?thesis
      by (simp add: json_escape_char_def unquote_escape json_unescape_def)
  next
    case 2
    then have "c = CHR 0x5C" by (simp add: char_eq_code n_def)
    then show ?thesis
      by (simp add: json_escape_char_def unquote_escape json_unescape_def)
  next
    case 3
    then have "c = CHR 0x0A" by (simp add: char_eq_code n_def)
    then show ?thesis
      by (simp add: json_escape_char_def unquote_escape json_unescape_def)
  next
    case 4
    then have "c = CHR 0x0D" by (simp add: char_eq_code n_def)
    then show ?thesis
      by (simp add: json_escape_char_def unquote_escape json_unescape_def)
  next
    case 5
    then have "c = CHR 0x09" by (simp add: char_eq_code n_def)
    then show ?thesis
      by (simp add: json_escape_char_def unquote_escape json_unescape_def)
  next
    case 6
    then have "c = CHR 0x08" by (simp add: char_eq_code n_def)
    then show ?thesis
      by (simp add: json_escape_char_def unquote_escape json_unescape_def)
  next
    case 7
    then have "c = CHR 0x0C" by (simp add: char_eq_code n_def)
    then show ?thesis
      by (simp add: json_escape_char_def unquote_escape json_unescape_def)
  next
    case 8
    then have "json_escape_char c =
      [CHR 0x5C, CHR ''u'', CHR ''0'', CHR ''0'', hex_digit (n div 16), hex_digit (n mod 16)]"
      by (simp add: json_escape_char_def Let_def n_def [symmetric])
    then show ?thesis using unquote_u [of c n acc rest] by (simp add: n_def)
  next
    case 9
    then have e: "json_escape_char c = [c]"
      by (simp add: json_escape_char_def Let_def n_def [symmetric])
    from 9 have "c \<noteq> CHR 0x22" "c \<noteq> CHR 0x5C" "\<not> (of_char c :: nat) < 0x20"
      by (auto simp: char_eq_code n_def)
    then show ?thesis unfolding e by (simp add: unquote_plain)
  qed
qed

lemma unquote_body:
  "json_unquote acc (concat (map json_escape_char s) @ CHR 0x22 # rest) = Some (acc @ s, rest)"
  by (induction s arbitrary: acc) (simp_all add: unquote_char unquote_close)

lemma unquote_quoted:
  "json_unquote [] (concat (map json_escape_char s) @ CHR 0x22 # rest) = Some (s, rest)"
  using unquote_body [of "[]" s rest] by simp

lemma members_one:
  assumes "rest = ''}'' \<or> (\<exists>t. rest = '', '' @ t)"
  shows "json_members (Suc n) (json_quote k @ '': '' @ json_quote v @ rest) =
           (if rest = ''}'' then Some [(k, v)]
            else map_option ((#) (k, v)) (json_members n (drop 2 rest)))"
  using assms by (auto simp: json_quote_def unquote_quoted)

lemma members_items:
  "d \<noteq> [] \<Longrightarrow> length d \<le> n \<Longrightarrow> json_members n (json_items d @ ''}'') = Some d"
proof (induction d arbitrary: n rule: json_items.induct)
  case 1
  then show ?case by simp
next
  case (2 k v)
  then obtain m where "n = Suc m" by (cases n) auto
  then show ?case using members_one [of "''}''" m k v] by simp
next
  case (3 k v x xs)
  then obtain m where n: "n = Suc m" by (cases n) auto
  with 3 have ih: "json_members m (json_items (x # xs) @ ''}'') = Some (x # xs)" by simp
  have "json_members (Suc m)
          (json_quote k @ '': '' @ json_quote v @ ('', '' @ json_items (x # xs) @ ''}'')) =
        map_option ((#) (k, v)) (json_members m (json_items (x # xs) @ ''}''))"
    using members_one [of "'', '' @ json_items (x # xs) @ ''}''" m k v] by simp
  with ih n show ?case by simp
qed

lemma hex_digit_ascii: "k < 16 \<Longrightarrow> (of_char (hex_digit k) :: nat) < 128"
  by (simp add: hex_digit_def)

lemma escape_ascii: "x \<in> set (json_escape_char c) \<Longrightarrow> (of_char x :: nat) < 128"
proof -
  have "n < 256 \<Longrightarrow> n div 16 < 16" for n :: nat by simp
  from this [OF of_char_less] have "(of_char c :: nat) div 16 < 16" .
  moreover have "(of_char c :: nat) mod 16 < 16" by simp
  ultimately show "x \<in> set (json_escape_char c) \<Longrightarrow> (of_char x :: nat) < 128"
    using hex_digit_ascii
    by (auto simp: json_escape_char_def Let_def split: if_splits)
qed

lemma quote_ascii: "x \<in> set (json_quote s) \<Longrightarrow> (of_char x :: nat) < 128"
  by (auto simp: json_quote_def dest: escape_ascii)

lemma items_ascii: "x \<in> set (json_items d) \<Longrightarrow> (of_char x :: nat) < 128"
  by (induction d rule: json_items.induct) (auto dest: quote_ascii)

lemma utf8_encode_ascii: "(\<And>x. x \<in> set s \<Longrightarrow> (of_char x :: nat) < 128) \<Longrightarrow> utf8_encode s = s"
  by (induction s) (auto simp: utf8_encode_def utf8_char_def)

lemma items_length: "length d \<le> length (json_items d)"
  by (induction d rule: json_items.induct) (auto simp: json_quote_def)

lemma items_nonempty: "d \<noteq> [] \<Longrightarrow> json_items d \<noteq> []"
  using items_length [of d] by (cases d) auto

lemma json_contract: "simple_json_loads (utf8_encode (simple_json_dumps d)) = Inr d"
proof -
  have a: "utf8_encode (simple_json_dumps d) = simple_json_dumps d"
    by (rule utf8_encode_ascii) (auto simp: simple_json_dumps_def dest: items_ascii)
  show ?thesis
  proof (cases "d = []")
    case True
    then show ?thesis unfolding a by (simp add: simple_json_dumps_def simple_json_loads_def)
  next
    case False
    then have "json_items d \<noteq> []" by (rule items_nonempty)
    then have ne: "simple_json_dumps d \<noteq> ''{}''"
      by (cases "json_items d") (auto simp: simple_json_dumps_def)
    have "length d \<le> length (simple_json_dumps d)"
      using items_length [of d] by (simp add: simple_json_dumps_def)
    with False have "json_members (length (simple_json_dumps d)) (json_items d @ ''}'') = Some d"
      by (rule members_items)
    with ne show ?thesis unfolding a
      by (simp add: simple_json_loads_def) (simp add: simple_json_dumps_def)
  qed
qed

subsection \<open>The data store\<close>

lemma retrieve_after_store:
  assumes "json_loads E (utf8_encode (json_dumps E data)) = Inr data"
      and "files S' = files (store_dial_data E app_name data S)"
  shows "retrieve_dial_data E S' app_name = Inr data"
  using assms
  by (simp add: retrieve_dial_data_def store_dial_data_def save_file_def_def file_exists_def
      load_file_def_def Let_def)

text \<open>In the sample environment the round trip holds for every name and every dictionary.\<close>

lemma sample_store_roundtrip:
  "files S' = files (store_dial_data sample_env app_name data S) \<Longrightarrow>
   retrieve_dial_data sample_env S' app_name = Inr data"
  by (rule retrieve_after_store) (simp_all add: sample_env_def json_contract)

subsection \<open>What the handlers cannot do\<close>

text \<open>
  Since \<open>is_ascii\<close> never answers \<open>False\<close>, no payload is answered
  \<open>400 Bad Request\<close>; a dial-data request that carries its payload in the query is
  never answered with success; and a handler that leaves with an exception leaves the
  lock held.
\<close>

lemma start_never_400:
  "fst (handle_app_start E S req qp n orig) \<noteq> Sent (call_error 400 ''400 Bad Request'')"
  using is_ascii_never_False [of "PyBytes (body_data req)"]
  by (auto simp: handle_app_start_def error_500_def not_found_def Let_def
      split: option.splits sum.splits if_splits)

lemma deliver_never_400:
  "fst (deliver_dial_data E S n orig data) \<noteq> Sent (call_error 400 msg)"
  using is_ascii_never_False [of data]
  by (auto simp: deliver_dial_data_def split: sum.splits prod.splits)

lemma deliver_str_raises:
  "deliver_dial_data E S n orig (PyStr q) = (Raised AttributeError, S)"
  by (simp add: deliver_dial_data_def is_ascii_def)

lemma dial_data_get_never_ok:
  "fst (handle_dial_data E S req n orig False) \<noteq> Sent (RESPONSE_OK orig')"
  by (auto simp: handle_dial_data_def deliver_str_raises error_500_def not_found_def Let_def
      split: option.splits sum.splits if_splits prod.splits)

lemma stop_status_raises:
  "\<not> MUTEX S \<Longrightarrow> find_app n (APPS S) = Some app \<Longrightarrow> dial_cb_status app = Inl e \<Longrightarrow>
   handle_app_stop E S n orig = (Raised e, acquire S)"
  by (simp add: handle_app_stop_def apps_acquire)

lemma raised_keeps_lock:
  "handle_app_stop E S n orig = (Raised e, S') \<Longrightarrow> MUTEX S'"
  "handle_app_hide E S n orig = (Raised e, S') \<Longrightarrow> MUTEX S'"
  "handle_app_start E S req qp n orig = (Raised e, S') \<Longrightarrow> MUTEX S'"
  "handle_dial_data E S req n orig b = (Raised e, S') \<Longrightarrow> MUTEX S'"
  by (auto simp: handle_app_stop_def handle_app_hide_def handle_app_start_def
      handle_dial_data_def deliver_dial_data_def error_500_def not_found_def
      set_app_def acquire_def release_def store_dial_data_def save_file_def_def Let_def
      split: option.splits sum.splits if_splits prod.splits)


section \<open>The claims\<close>

subsection \<open>Origins with the scheme \<open>https\<close>\<close>

text \<open>
  Claim C1.  For an application that declares allowed origins, an \<open>https\<close> origin is
  to be compared with the declared patterns by host, ports ignored: an origin that
  differs from a pattern only in its port passes, an origin of another host is denied.
  \<open>host_matches\<close> answers \<open>True\<close> for every pair, so the origin
  \<open>https://evil.example\<close> passes for the application \<open>Test\<close>, whose only declared
  origin is \<open>https://www.youtube.com\<close>: the run below shows the second half of the
  claim failing on the code.
\<close>

theorem https_origin_of_foreign_host_allowed:
  "is_allowed_origin sample_env sample_server (Some ''https://evil.example'') ''Test'' =
     (Inr True, sample_server)"
  by (simp add: run_defs)

subsection \<open>Payloads that are not printable ASCII\<close>

text \<open>
  Claim C2.  A start or dial-data request whose body holds a byte that is not printable
  ASCII is to be answered with status 400.  On the code a body with the byte \<open>0x80\<close>
  makes \<open>is_ascii\<close> raise, the request is answered \<open>500 ERROR\<close> by \<open>route\<close> and
  the lock stays held, for the start request and for the dial-data request alike; a
  body with the control byte \<open>0x07\<close> is let through and the application is started.
\<close>

theorem non_ascii_payload_answered_500:
  "route sample_env sample_server
     ((sample_request ''POST'' ''/apps/Test'')\<lparr>content_length := Some ''1'', rfile := [CHR 0x80]\<rparr>) =
     (Sent (call_error 500 ''ERROR''), sample_server\<lparr>MUTEX := True\<rparr>)
   \<and> route sample_env sample_server
     ((sample_request ''POST'' ''/Test/dial_data'')
        \<lparr>client_address := ''127.0.0.1'', content_length := Some ''1'', rfile := [CHR 0x80]\<rparr>) =
     (Sent (call_error 500 ''ERROR''), sample_server\<lparr>MUTEX := True\<rparr>)
   \<and> fst (route sample_env sample_server
     ((sample_request ''POST'' ''/apps/Test'')\<lparr>content_length := Some ''1'', rfile := [CHR 0x07]\<rparr>)) =
     Sent (CREATED_RESPONSE ''192.168.1.10'' ''56789'' ''Test'' None)"
  by (simp add: run_defs)

subsection \<open>A callback that raises\<close>

text \<open>
  Claim C3.  When a callback of an application raises during a request, the exception
  is to be caught, the client to get an error response, and the lock to be free again
  once the handler is done.  On the code the status callback of \<open>Test\<close> raising during
  \<open>DELETE /apps/Test/run\<close> is answered \<open>500 ERROR\<close>, but the lock is still held
  afterwards, and the status request that follows is turned away with 500.
\<close>

theorem callback_exception_keeps_mutex:
  "route sample_env
     (sample_server\<lparr>APPS := [sample_app\<lparr>dial_cb_status := Inl (AppException ''status failed'')\<rparr>]\<rparr>)
     (sample_request ''DELETE'' ''/apps/Test/run'') =
     (Sent (call_error 500 ''ERROR''),
      sample_server\<lparr>MUTEX := True,
        APPS := [sample_app\<lparr>dial_cb_status := Inl (AppException ''status failed'')\<rparr>]\<rparr>)
   \<and> route sample_env
       (sample_server\<lparr>MUTEX := True,
          APPS := [sample_app\<lparr>dial_cb_status := Inl (AppException ''status failed'')\<rparr>]\<rparr>)
       (sample_request ''GET'' ''/apps/Test'') =
     (Sent (call_error 500 ''500 Internal Server Error''),
      sample_server\<lparr>MUTEX := True,
        APPS := [sample_app\<lparr>dial_cb_status := Inl (AppException ''status failed'')\<rparr>]\<rparr>)"
  by (simp add: run_defs)

subsection \<open>Dial-data requests\<close>

text \<open>
  Claim C4.  A dial-data request (POST or GET) from the loopback address for a
  registered application, with an ASCII payload within the limit, is to have its
  payload parsed as URL-encoded form data, stored, made the application's
  \<open>dial_data\<close>, and answered with 200.  On the code the request
  \<open>GET /Test/dial_data?a=1\<close> hands the query, a \<open>str\<close>, to \<open>is_ascii\<close>, which
  raises: the answer is \<open>500 ERROR\<close>, nothing is stored and the lock stays held.  The
  request \<open>POST /Test/dial_data\<close> with the body \<open>a=1&b=2\<close> is answered with 200, but
  what is parsed is the query component of the body taken as a URL, which is empty: the
  empty dictionary is stored.
\<close>

theorem dial_data_get_answered_500:
  "route sample_env sample_server
     ((sample_request ''GET'' ''/Test/dial_data?a=1'')\<lparr>client_address := ''127.0.0.1''\<rparr>) =
     (Sent (call_error 500 ''ERROR''), sample_server\<lparr>MUTEX := True\<rparr>)
   \<and> route sample_env sample_server
     ((sample_request ''POST'' ''/Test/dial_data'')
        \<lparr>client_address := ''127.0.0.1'', content_length := Some ''7'', rfile := ''a=1&b=2''\<rparr>) =
     (Sent (RESPONSE_OK None), sample_server\<lparr>files := [''dial_data/Test.json'' \<mapsto> ''{}'']\<rparr>)"
  by (simp add: run_defs simple_json_dumps_def)

subsection \<open>A start that the application forbids\<close>

text \<open>
  Claim C5.  When the start callback yields \<open>ERROR_FORBIDDEN\<close>, the status code of the
  response to \<open>POST /apps/{name}\<close> is to be 403.  On the code the response carries the
  code 400 beside the message \<open>403 Forbidden\<close>.
\<close>

theorem forbidden_start_answered_400:
  "route sample_env
     (sample_server\<lparr>APPS :=
        [sample_app\<lparr>dial_cb_start := \<lambda>payload query_params additional. Inr ERROR_FORBIDDEN\<rparr>]\<rparr>)
     (sample_request ''POST'' ''/apps/Test'') =
     (Sent (call_error 400 ''403 Forbidden''),
      sample_server\<lparr>APPS :=
        [sample_app\<lparr>dial_cb_start := \<lambda>payload query_params additional. Inr ERROR_FORBIDDEN,
                     state := ERROR_FORBIDDEN\<rparr>]\<rparr>)"
  by (simp add: run_defs)

subsection \<open>The state \<open>hidden\<close> and the client's version\<close>

text \<open>
  Claim C6.  For every status request \<open>GET /apps/{name}\<close> whose \<open>clientDialVer\<close> is
  below 2.1, the response is never to report the state \<open>hidden\<close>: a hidden application
  is reported as \<open>stopped\<close>, and the state kept for it stays as it is.  The handler
  compares the version with the float \<open>2.09\<close> under a comment that says 2.1.  The
  version \<open>2.09375\<close> is below 2.1 and is a float as it stands (\<open>67 / 32\<close>); on the
  code a client that reports it while \<open>Test\<close> is hidden is told \<open>hidden\<close>, with a run
  link.
\<close>

theorem hidden_reported_to_client_2_09375:
  "(67 / 32 :: rat) < 21 / 10
   \<and> py_float sample_env ''2.09375'' = Inr (Finite (67 / 32))
   \<and> route sample_env (sample_server\<lparr>APPS := [sample_app\<lparr>dial_cb_status := Inr HIDE\<rparr>]\<rparr>)
       (sample_request ''GET'' ''/apps/Test?clientDialVer=2.09375'') =
     (Sent (STATUS_RESPONSE None ''2.2'' ''Test'' ''true'' ''hidden'' run_link
              [CHR 0x0D, CHR 0x0A, CHR '' '', CHR '' '']),
      sample_server\<lparr>APPS := [sample_app\<lparr>dial_cb_status := Inr HIDE, state := HIDE\<rparr>]\<rparr>)"
  by (simp add: run_defs)

text \<open>
  What the code does keep: below the float \<open>2.09\<close> a status response never says
  \<open>hidden\<close>, a hidden application is reported as \<open>stopped\<close> without a run link, and
  the state kept for it is \<open>HIDE\<close> all the same.
\<close>

lemma status_downgrade_below_2_09:
  assumes "urlparse E (path req) = Inr (p, q)"
      and "startswith p APPS_URI" and "\<not> endswith p RUN_URI" and "command req = ''GET''"
      and "dict_get (parse_qs E q) ''clientDialVer'' [''0.0''] = ver # rest"
      and "py_float E ver = Inr cv" and "float_lt cv client_version_bound"
      and "route E S req = (Sent (STATUS_RESPONSE orig dv name cs ds link dd), S')"
  shows "ds \<noteq> ''hidden'' \<and>
         (\<forall>app. find_app name (APPS S) = Some app \<and> dial_cb_status app = Inr HIDE \<longrightarrow>
            ds = ''stopped'' \<and> link = [] \<and>
            map_option state (find_app name (APPS S')) = Some HIDE)"
proof -
  from route_status [OF assms(1-4,8)] obtain S1 where
    h: "handle_app_status E S1 (parse_qs E q) (str_replace APPS_URI [] p) (origin_header req) =
       (Sent (STATUS_RESPONSE orig dv name cs ds link dd), S')"
    and s: "\<not> MUTEX S \<longrightarrow> S1 = S" "MUTEX S \<longrightarrow> MUTEX S1" by blast
  note r = status_reply [OF h assms(5-7)]
  with s have [simp]: "S1 = S" by auto
  from r show ?thesis
    by (auto simp: set_app_def release_def acquire_def find_app_update_same)
qed

subsection \<open>Requests while the lock is held\<close>




subsection \<open>Registration and lookup\<close>

text \<open>
  Claim C8.  After an application with non-empty add-on id and name has been registered,
  \<open>find_app\<close> with its name yields an application of that name; a newly registered one
  is appended to the registry in state \<open>STOPPED\<close>.  When the name is registered already,
  the registration changes nothing.  In either case every application that was found
  before is found as before, so the first registrant of a name remains the one that
  \<open>find_app\<close> returns, and names that were unique stay unique.
\<close>

theorem register_then_find:
  assumes "register_app E S cls = Inr S'"
      and "KODI_ADDON_ID cls = Some addon_id" and "addon_id \<noteq> []"
      and "DIAL_APP_NAME cls = Some name" and "name \<noteq> []"
  shows "(find_app name (APPS S) = None \<longrightarrow>
            (\<exists>app. APPS S' = APPS S @ [app] \<and> find_app name (APPS S') = Some app \<and>
                   DIAL_APP_NAME app = Some name \<and> KODI_ADDON_ID app = Some addon_id \<and>
                   state app = STOPPED))
       \<and> (\<forall>first. find_app name (APPS S) = Some first \<longrightarrow> S' = S)
       \<and> (\<forall>other a. find_app other (APPS S) = Some a \<longrightarrow> find_app other (APPS S') = Some a)
       \<and> (distinct (map DIAL_APP_NAME (APPS S)) \<longrightarrow> distinct (map DIAL_APP_NAME (APPS S')))"
proof -
  have fresh: "find_app name (APPS S) = None \<Longrightarrow> Some name \<notin> DIAL_APP_NAME ` set (APPS S)"
    by (auto simp: find_app_def find_None_iff)
  from assms fresh show ?thesis
    by (auto simp: register_app_def find_app_append app_class.extend_def DialApp.fields_def
        split: option.splits sum.splits if_splits)
qed

text \<open>
  The theorem at work: beside \<open>Test\<close> a second application \<open>Other\<close> is registered,
  then a third add-on tries to register the name \<open>Test\<close> again.
\<close>

theorem register_then_find_witness:
  "(\<exists>S' app. register_app sample_env sample_server
        (sample_class\<lparr>KODI_ADDON_ID := Some ''plugin.video.other'', DIAL_APP_NAME := Some ''Other''\<rparr>) =
        Inr S' \<and>
      APPS S' = [sample_app, app] \<and> find_app ''Other'' (APPS S') = Some app \<and>
      DIAL_APP_NAME app = Some ''Other'' \<and> state app = STOPPED \<and>
      find_app ''Test'' (APPS S') = Some sample_app)
   \<and> register_app sample_env sample_server
        (sample_class\<lparr>KODI_ADDON_ID := Some ''plugin.video.third''\<rparr>) = Inr sample_server
   \<and> find_app ''Test'' (APPS sample_server) = Some sample_app"
proof -
  let ?other = "sample_class\<lparr>KODI_ADDON_ID := Some ''plugin.video.other'',
                               DIAL_APP_NAME := Some ''Other''\<rparr>"
  let ?third = "sample_class\<lparr>KODI_ADDON_ID := Some ''plugin.video.third''\<rparr>"
  obtain S' where 1: "register_app sample_env sample_server ?other = Inr S'"
    by (simp add: register_app_def retrieve_dial_data_def file_exists_def find_app_def
        sample_defs)
  have 2: "KODI_ADDON_ID ?other = Some ''plugin.video.other''"
          "DIAL_APP_NAME ?other = Some ''Other''"
    by (simp_all add: sample_defs)
  have 3: "find_app ''Other'' (APPS sample_server) = None"
    by (simp add: find_app_def sample_defs)
  have 4: "find_app ''Test'' (APPS sample_server) = Some sample_app"
    by (simp add: find_app_def sample_defs)
  have 5: "APPS sample_server = [sample_app]" by (simp add: sample_server_def)
  from register_then_find [OF 1 2(1) _ 2(2)] 3 4 5
  have a: "\<exists>app. APPS S' = [sample_app, app] \<and> find_app ''Other'' (APPS S') = Some app \<and>
             DIAL_APP_NAME app = Some ''Other'' \<and> state app = STOPPED \<and>
             find_app ''Test'' (APPS S') = Some sample_app"
    by auto
  have 6: "register_app sample_env sample_server ?third = Inr sample_server"
    by (simp add: register_app_def find_app_def sample_defs)
  have 7: "KODI_ADDON_ID ?third = Some ''plugin.video.third''" "DIAL_APP_NAME ?third = Some ''Test''"
    by (simp_all add: sample_defs)
  from register_then_find [OF 6 7(1) _ 7(2)] 4
  have b: "find_app ''Test'' (APPS sample_server) = Some sample_app" by simp
  from 1 a 6 b show ?thesis by blast
qed

subsection \<open>The size of a start payload\<close>

text \<open>
  Claim C9, as amended.  For a start request \<open>POST /apps/{name}\<close> on a registered
  application that arrives while the lock is free, passes the origin check, and whose
  \<open>content-length\<close> header states the number of bytes of its body: a body of more than
  4096 bytes, so one of 4097 bytes, is answered with 413, and a body of at most 4096
  bytes, so one of exactly 4096 bytes, is never answered with 413.
\<close>

theorem start_payload_boundary:
  assumes "urlparse E (path req) = Inr (p, q)"
      and "startswith p APPS_URI" and "\<not> endswith p RUN_URI" and "command req = ''POST''"
      and "\<not> MUTEX S"
      and "fst (check_origin E S (origin_header req) (str_replace APPS_URI [] p)) = None"
      and "find_app (str_replace APPS_URI [] p) (APPS S) \<noteq> None"
      and "declared_size E req = Inr (int (length (rfile req)))"
  shows "(4096 < length (rfile req) \<longrightarrow>
            fst (route E S req) = Sent (call_error 413 ''413 Request Entity Too Large''))
       \<and> (length (rfile req) \<le> 4096 \<longrightarrow>
            (\<forall>r. fst (route E S req) = Sent r \<longrightarrow> status_code r \<noteq> 413))"
proof -
  note r = route_start [OF assms(1-6,8)]
  show ?thesis
    using assms(5,7) unfolding r
    by (auto simp: handle_app_start_def apps_acquire DIAL_MAX_PAYLOAD_def error_500_def
        not_found_def request.extend_def handler.fields_def Let_def
        split: option.splits sum.splits if_splits)
qed

text \<open>The theorem at work: bodies of 4097 and of 4096 letters \<open>a\<close> for \<open>Test\<close>.\<close>

theorem start_payload_boundary_witness:
  "fst (route sample_env sample_server
          ((sample_request ''POST'' ''/apps/Test'')
             \<lparr>content_length := Some ''4097'', rfile := replicate 4097 CHR ''a''\<rparr>)) =
     Sent (call_error 413 ''413 Request Entity Too Large'')
   \<and> fst (route sample_env sample_server
          ((sample_request ''POST'' ''/apps/Test'')
             \<lparr>content_length := Some ''4096'', rfile := replicate 4096 CHR ''a''\<rparr>)) \<noteq>
     Sent (call_error 413 ''413 Request Entity Too Large'')"
proof -
  let ?big = "(sample_request ''POST'' ''/apps/Test'')
                \<lparr>content_length := Some ''4097'', rfile := replicate 4097 CHR ''a''\<rparr>"
  let ?max = "(sample_request ''POST'' ''/apps/Test'')
                \<lparr>content_length := Some ''4096'', rfile := replicate 4096 CHR ''a''\<rparr>"
  have 1: "urlparse sample_env (path ?big) = Inr (''/apps/Test'', [])"
          "urlparse sample_env (path ?max) = Inr (''/apps/Test'', [])"
    by (simp_all add: sample_defs)
  have 2: "startswith ''/apps/Test'' APPS_URI" by (simp add: string_defs const_defs)
  have 3: "\<not> endswith ''/apps/Test'' RUN_URI" by (simp add: string_defs const_defs)
  have 4: "command ?big = ''POST''" "command ?max = ''POST''" by (simp_all add: sample_defs)
  have 5: "\<not> MUTEX sample_server" by (simp add: sample_defs)
  have 6: "fst (check_origin sample_env sample_server (origin_header ?big)
                  (str_replace APPS_URI [] ''/apps/Test'')) = None"
          "fst (check_origin sample_env sample_server (origin_header ?max)
                  (str_replace APPS_URI [] ''/apps/Test'')) = None"
    by (simp_all add: check_origin_def sample_defs)
  have 7: "find_app (str_replace APPS_URI [] ''/apps/Test'') (APPS sample_server) \<noteq> None"
    by (simp add: find_app_def const_defs sample_defs)
  have 8: "declared_size sample_env ?big = Inr (int (length (rfile ?big)))"
          "declared_size sample_env ?max = Inr (int (length (rfile ?max)))"
    by (simp_all add: declared_size_def sample_defs)
  have 9: "4096 < length (rfile ?big)" "length (rfile ?max) \<le> 4096"
    by (simp_all add: sample_defs)
  from start_payload_boundary [OF 1(1) 2 3 4(1) 5 6(1) 7 8(1)] 9(1)
  have a: "fst (route sample_env sample_server ?big) =
             Sent (call_error 413 ''413 Request Entity Too Large'')"
    by blast
  from start_payload_boundary [OF 1(2) 2 3 4(2) 5 6(2) 7 8(2)] 9(2)
  have "\<forall>r. fst (route sample_env sample_server ?max) = Sent r \<longrightarrow> status_code r \<noteq> 413"
    by blast
  then have b: "fst (route sample_env sample_server ?max) \<noteq>
                  Sent (call_error 413 ''413 Request Entity Too Large'')"
    by fastforce
  from a b show ?thesis by blast
qed

text \<open>
  The claim as it stands promises 413 to every start request with a body of 4097 bytes
  on a registered application.  While the lock is held such a request is answered with
  500; with an origin that the application does not allow it is answered with 403; and
  a request that declares the length \<open>-1\<close> has its body of 4097 bytes read to the end
  and the application started.
\<close>

theorem start_of_4097_bytes_not_answered_413:
  "route sample_env (sample_server\<lparr>MUTEX := True\<rparr>)
     ((sample_request ''POST'' ''/apps/Test'')
        \<lparr>content_length := Some ''4097'', rfile := replicate 4097 CHR ''a''\<rparr>) =
     (Sent (call_error 500 ''500 Internal Server Error''), sample_server\<lparr>MUTEX := True\<rparr>)
   \<and> route sample_env sample_server
       ((sample_request ''POST'' ''/apps/Test'')
          \<lparr>origin_header := Some ''http://evil.example'',
           content_length := Some ''4097'', rfile := replicate 4097 CHR ''a''\<rparr>) =
     (Sent (call_error 403 ''Forbidden''), sample_server)
   \<and> length (replicate 4097 CHR ''a'') = 4097
   \<and> fst (route sample_env sample_server
          ((sample_request ''POST'' ''/apps/Test'')
             \<lparr>content_length := Some ''-1'', rfile := replicate 4097 CHR ''a''\<rparr>)) =
     Sent (CREATED_RESPONSE ''192.168.1.10'' ''56789'' ''Test'' None)"
  by (simp add: run_defs)

subsection \<open>Storing and retrieving dial data\<close>

text \<open>
  Claim C10.  A flat mapping of strings stored for an application with
  \<open>store_dial_data\<close> and retrieved with \<open>retrieve_dial_data\<close> under the same name,
  from any later state of the module that has the same files (as after a restart), is
  the mapping that was stored.  The JSON codec is the library's: what is asked of it is
  that \<open>json.loads\<close> reads back what \<open>json.dumps\<close> wrote for this mapping, as the
  codec of the sample does for every mapping (\<open>json_contract\<close>).
\<close>

theorem dial_data_roundtrip:
  assumes "json_loads E (utf8_encode (json_dumps E data)) = Inr data"
      and "files S' = files (store_dial_data E app_name data S)"
  shows "retrieve_dial_data E S' app_name = Inr data"
  using assms by (rule retrieve_after_store)

text \<open>
  The theorem at work: the mapping \<open>{"a": "1", "b": "2"}\<close> for the application \<open>X\<close>,
  read back by a fresh module with an empty registry.
\<close>

theorem dial_data_roundtrip_witness:
  "retrieve_dial_data sample_env
     \<lparr>MUTEX = False, APPS = [],
      files = files (store_dial_data sample_env ''X'' [(''a'', ''1''), (''b'', ''2'')] sample_server)\<rparr>
     ''X'' =
   Inr [(''a'', ''1''), (''b'', ''2'')]"
proof -
  have 1: "json_loads sample_env
             (utf8_encode (json_dumps sample_env [(''a'', ''1''), (''b'', ''2'')])) =
           Inr [(''a'', ''1''), (''b'', ''2'')]"
    by (simp add: sample_env_def json_contract)
  show ?thesis
    by (rule dial_data_roundtrip [OF 1]) simp
qed

end
